theory Spec2Isabelle
  imports Main
begin

text \<open>
  The startup tester of \<open>minecraft_tester.py\<close>: the class \<open>MinecraftTester\<close>, which
  reads one log file, matches each of its lines against a table of error signatures,
  looks for a success phrase, and prints and returns a report.

  What is outside the class is input of the model: the state of the log file, whether
  the report file can be written, the rendering of paths and the readings of the clock.
  \<open>print\<close> is taken to succeed. The function \<open>main\<close>, which asks for the
  configuration and prints a recommendation from the report, is not modelled; its
  directory literal \<open>"C:\Users\..."\<close> holds the escape \<open>\U\<close>, which Python 3 rejects
  when it compiles the file, and the class is modelled as it reads.
\<close>

section \<open>Text\<close>

text \<open>
  A Python \<open>str\<close> is a sequence of Unicode code points. The log is decoded from UTF-8
  (\<open>errors='ignore'\<close>), so any code point may occur in it; a character is therefore a
  natural number and not an 8-bit \<open>char\<close>. The ASCII literals of the source are written
  \<open>ustr ''...''\<close>.
\<close>

type_synonym codepoint = nat
type_synonym pystr = "codepoint list"

definition ustr :: "string \<Rightarrow> pystr" where
  "ustr s = map of_char s"

text \<open>\<open>str(n)\<close> for a non-negative integer, as the f-strings of the report format it.\<close>

fun decimal :: "nat \<Rightarrow> pystr" where
  "decimal n = (if n < 10 then [48 + n] else decimal (n div 10) @ [48 + n mod 10])"

declare decimal.simps [simp del]

text \<open>
  \<open>str.isspace\<close> on one character: the code points that \<open>str.strip()\<close> removes and
  that \<open>\s\<close> matches in a \<open>str\<close> pattern.
\<close>

definition is_space :: "codepoint \<Rightarrow> bool" where
  "is_space c \<longleftrightarrow>
     (9 \<le> c \<and> c \<le> 13) \<or> (28 \<le> c \<and> c \<le> 32) \<or> c = 133 \<or> c = 160 \<or> c = 5760 \<or>
     (8192 \<le> c \<and> c \<le> 8202) \<or> c = 8232 \<or> c = 8233 \<or> c = 8239 \<or> c = 8287 \<or> c = 12288"

definition strip :: "pystr \<Rightarrow> pystr" where
  "strip s = rev (dropWhile is_space (rev (dropWhile is_space s)))"

text \<open>\<open>content.split('\n')\<close>: the pieces between line feeds; never an empty list.\<close>

fun split_nl :: "pystr \<Rightarrow> pystr list" where
  "split_nl [] = [[]]"
| "split_nl (c # cs) =
     (if c = 10 then [] # split_nl cs
      else (case split_nl cs of l # ls \<Rightarrow> (c # l) # ls | [] \<Rightarrow> [[c]]))"

text \<open>
  \<open>str.upper()\<close> on the issue kinds, which are ASCII identifiers: a lower-case ASCII
  letter goes to its capital, every other ASCII character stays.
\<close>

definition upper :: "pystr \<Rightarrow> pystr" where
  "upper s = map (\<lambda>c. if 97 \<le> c \<and> c \<le> 122 then c - 32 else c) s"

section \<open>Regular expressions of the source\<close>

text \<open>
  Under \<open>re.IGNORECASE\<close> a character of a \<open>str\<close> pattern that is an ASCII letter
  matches both of its ASCII cases and, for \<open>i\<close>, \<open>s\<close> and \<open>k\<close>, the four letters
  U+0130, U+0131, U+017F and U+212A; a pattern character without case matches only
  itself. \<open>fold_ci\<close> sends a character of the text to the lower-case ASCII letter it
  matches, and every other character to itself.
\<close>

definition fold_ci :: "codepoint \<Rightarrow> codepoint" where
  "fold_ci c =
     (if 65 \<le> c \<and> c \<le> 90 then c + 32
      else if c = 304 \<or> c = 305 then 105
      else if c = 383 then 115
      else if c = 8490 then 107
      else c)"

text \<open>
  The patterns of \<open>error_patterns\<close> and \<open>success_patterns\<close> are alternations
  (\<open>|\<close>) of branches, a branch being a sequence of literal characters and \<open>.*\<close>
  (any run of characters other than the line feed).
\<close>

datatype atom = Lit codepoint | AnyStar

type_synonym branch = "atom list"
type_synonym regex = "branch list"

definition lit :: "string \<Rightarrow> branch" where
  "lit s = map Lit (ustr s)"

text \<open>Does the branch match a prefix of the text?\<close>

fun match_here :: "branch \<Rightarrow> pystr \<Rightarrow> bool" where
  "match_here [] s = True"
| "match_here (Lit p # r) [] = False"
| "match_here (Lit p # r) (c # cs) =
     (if fold_ci c = fold_ci p then match_here r cs else False)"
| "match_here (AnyStar # r) [] = match_here r []"
| "match_here (AnyStar # r) (c # cs) =
     (if match_here r (c # cs) then True
      else if c = 10 then False
      else match_here (AnyStar # r) cs)"

text \<open>Does the branch match at some position of the text?\<close>

fun search_branch :: "branch \<Rightarrow> pystr \<Rightarrow> bool" where
  "search_branch b [] = match_here b []"
| "search_branch b (c # cs) =
     (if match_here b (c # cs) then True else search_branch b cs)"

text \<open>\<open>re.search(pattern, s, re.IGNORECASE) is not None\<close>.\<close>

definition re_search :: "regex \<Rightarrow> pystr \<Rightarrow> bool" where
  "re_search rx s = list_ex (\<lambda>b. search_branch b s) rx"

text \<open>
  \<open>re.search(r'mod[:\s]+([a-zA-Z0-9_]+)', line, re.IGNORECASE)\<close> and its group 1.
  The two character classes are disjoint, so the greedy match at a position is the
  longest run of separators after \<open>mod\<close> followed by the longest run of word
  characters, and a position where either run is empty has no match at all.
\<close>

definition is_sep :: "codepoint \<Rightarrow> bool" where
  "is_sep c \<longleftrightarrow> c = 58 \<or> is_space c"

definition is_word :: "codepoint \<Rightarrow> bool" where
  "is_word c \<longleftrightarrow>
     (let f = fold_ci c in (97 \<le> f \<and> f \<le> 122) \<or> (48 \<le> f \<and> f \<le> 57) \<or> f = 95)"

definition mod_match_here :: "pystr \<Rightarrow> pystr option" where
  "mod_match_here s =
     (case s of
        c1 # c2 # c3 # rest \<Rightarrow>
          if fold_ci c1 = 109 \<and> fold_ci c2 = 111 \<and> fold_ci c3 = 100 then
            (let after = dropWhile is_sep rest;
                 name = takeWhile is_word after
             in if takeWhile is_sep rest \<noteq> [] \<and> name \<noteq> [] then Some name else None)
          else None
      | _ \<Rightarrow> None)"

fun mod_search :: "pystr \<Rightarrow> pystr option" where
  "mod_search [] = None"
| "mod_search (c # cs) =
     (case mod_match_here (c # cs) of Some name \<Rightarrow> Some name | None \<Rightarrow> mod_search cs)"

section \<open>Issues, the environment and the tester\<close>

text \<open>
  An issue is a dictionary. Its keys \<open>type\<close>, \<open>message\<close> and \<open>severity\<close> are set at
  every place of the source that builds one; \<open>mod\<close> and \<open>timestamp\<close> are set only by
  \<open>analyze_log_content\<close>, and \<open>None\<close> stands for an absent key.
\<close>

record issue =
  type :: pystr
  message :: pystr
  mod_name :: "pystr option"
  severity :: pystr
  timestamp :: "pystr option"


text \<open>
  What a run reads from outside: the log artifact (absent, that is \<open>exists()\<close>
  returns false; not even to be checked, that is \<open>exists()\<close> itself raises, as it does
  for a directory on the path that may not be searched; present but failing in
  \<open>open\<close> or \<open>read\<close> with an exception of the given text; or read with the given
  content), whether the report file can be written, how the platform renders
  \<open>str(Path(dir) / part / ...)\<close>, and the clock: the \<open>n\<close>-th call of
  \<open>datetime.now()\<close> in its \<open>isoformat()\<close> and in its
  \<open>strftime('%Y%m%d_%H%M%S')\<close> rendering.
\<close>

datatype artifact = Missing | Inaccessible | Unreadable pystr | Readable pystr

record env =
  log_artifact :: artifact
  report_writable :: bool
  path_str :: "pystr \<Rightarrow> pystr list \<Rightarrow> pystr"
  isoformat :: "nat \<Rightarrow> pystr"
  strftime :: "nat \<Rightarrow> pystr"

text \<open>
  The fields of \<open>MinecraftTester\<close> that the analysis uses (\<open>java_path\<close> and
  \<open>timeout\<close> are never read, and \<open>process\<close> stays \<open>None\<close>, so
  \<open>terminate_minecraft\<close> does nothing), with the lines printed so far and the number
  of clock readings so far.
\<close>

record tester =
  minecraft_dir :: pystr
  log_file :: pystr
  issues :: "issue list"
  startup_successful :: bool
  stdout :: "pystr list"
  clock_reads :: nat

definition print :: "pystr \<Rightarrow> tester \<Rightarrow> tester" where
  "print line t = t\<lparr>stdout := stdout t @ [line]\<rparr>"

definition error_patterns :: "(pystr \<times> regex) list" where
  "error_patterns =
     [(ustr ''mod_loading_error'',
         [lit ''Error loading mod'', lit ''Failed to load mod'', lit ''ModLoadingException'']),
      (ustr ''dependency_missing'',
         [lit ''Missing required dependency'', lit ''Unsatisfied dependency'']),
      (ustr ''version_conflict'',
         [lit ''Version conflict'', lit ''Incompatible mod version'', lit ''requires version'']),
      (ustr ''file_not_found'',
         [lit ''FileNotFoundException'', lit ''Could not find file'', lit ''Missing file'']),
      (ustr ''mixin_error'',
         [lit ''Mixin apply failed'', lit ''MixinException'', lit ''Mixin conflict'']),
      (ustr ''memory_error'',
         [lit ''OutOfMemoryError'', lit ''Java heap space'', lit ''GC overhead limit'']),
      (ustr ''duplicate_mod'',
         [lit ''Duplicate mod'', lit ''Found duplicate'', lit ''Multiple mods with same'']),
      (ustr ''config_error'',
         [lit ''Configuration error'', lit ''Invalid config'', lit ''Config parse error'']),
      (ustr ''java_error'',
         [lit ''UnsupportedClassVersionError'', lit ''Java version'', lit ''JVM crash'']),
      (ustr ''forge_error'',
         [lit ''FML'', lit ''Forge'' @ [AnyStar] @ lit ''error'',
          lit ''ModLauncher'' @ [AnyStar] @ lit ''error''])]"

definition success_patterns :: "regex list" where
  "success_patterns =
     [[lit ''Minecraft main menu'' @ [AnyStar] @ lit ''displayed''],
      [lit ''Successfully loaded'' @ [AnyStar] @ lit ''main menu''],
      [lit ''Client successfully started''],
      [lit ''Reached main menu'']]"

definition MinecraftTester :: "env \<Rightarrow> pystr \<Rightarrow> tester" where
  "MinecraftTester e dir =
     \<lparr>minecraft_dir = path_str e dir [],
      log_file = path_str e dir [ustr ''logs'', ustr ''latest.log''],
      issues = [],
      startup_successful = False,
      stdout = [],
      clock_reads = 0\<rparr>"

definition launch_minecraft :: "tester \<Rightarrow> bool \<times> tester" where
  "launch_minecraft t = (True, print (ustr ''Analyzing existing log file...'') t)"

section \<open>Classification\<close>

definition severity_of :: "pystr \<Rightarrow> pystr" where
  "severity_of error_type =
     (if error_type \<in> set [ustr ''mod_loading_error'', ustr ''memory_error'', ustr ''java_error'']
      then ustr ''critical'' else ustr ''warning'')"

text \<open>The body of \<open>if re.search(pattern, line, re.IGNORECASE)\<close>.\<close>

definition found :: "env \<Rightarrow> pystr \<Rightarrow> pystr \<Rightarrow> tester \<Rightarrow> tester" where
  "found e line error_type t =
     t\<lparr>issues := issues t @
          [\<lparr>type = error_type,
            message = strip line,
            mod_name = Some (case mod_search line of Some name \<Rightarrow> name
                             | None \<Rightarrow> ustr ''unknown''),
            severity = severity_of error_type,
            timestamp = Some (isoformat e (clock_reads t))\<rparr>],
       clock_reads := Suc (clock_reads t)\<rparr>"

text \<open>The loop over \<open>self.error_patterns.items()\<close> for one line.\<close>

fun scan_line :: "env \<Rightarrow> pystr \<Rightarrow> (pystr \<times> regex) list \<Rightarrow> tester \<Rightarrow> tester" where
  "scan_line e line [] t = t"
| "scan_line e line ((error_type, pattern) # rest) t =
     scan_line e line rest
       (if re_search pattern line then found e line error_type t else t)"

text \<open>The loop over the lines.\<close>

fun scan_lines :: "env \<Rightarrow> pystr list \<Rightarrow> tester \<Rightarrow> tester" where
  "scan_lines e [] t = t"
| "scan_lines e (line # lines) t = scan_lines e lines (scan_line e line error_patterns t)"

definition analyze_log_content :: "env \<Rightarrow> pystr \<Rightarrow> tester \<Rightarrow> tester" where
  "analyze_log_content e content t = scan_lines e (split_nl content) t"

text \<open>The loop over \<open>self.success_patterns\<close>, which returns at the first match.\<close>

fun check_success :: "pystr \<Rightarrow> regex list \<Rightarrow> tester \<Rightarrow> tester" where
  "check_success content [] t = t"
| "check_success content (pattern # rest) t =
     (if re_search pattern content
      then print ([10003] @ ustr '' Log shows successful main menu load!'')
             (t\<lparr>startup_successful := True\<rparr>)
      else check_success content rest t)"

text \<open>
  The exceptions of the model: the one that \<open>self.log_file.exists()\<close> raises, and the
  one that opening the report file raises.
\<close>

datatype error = ExistsRaised | PersistenceFailure

text \<open>
  \<open>monitor_logs\<close> returns the exception that leaves it, if any, and the state it
  leaves behind. The call of \<open>exists()\<close> stands before the \<open>try\<close>, so what it raises
  is not turned into an issue.
\<close>

definition monitor_logs :: "env \<Rightarrow> tester \<Rightarrow> error option \<times> tester" where
  "monitor_logs e t0 =
     (let t = print (ustr ''Reading log file for startup issues...'') t0 in
      case log_artifact e of
        Inaccessible \<Rightarrow> (Some ExistsRaised, t)
      | Missing \<Rightarrow>
          (None,
           t\<lparr>issues := issues t @
             [\<lparr>type = ustr ''file_not_found'',
               message = ustr ''Log file not found: '' @ log_file t,
               mod_name = None,
               severity = ustr ''critical'',
               timestamp = None\<rparr>]\<rparr>)
      | Readable content \<Rightarrow>
          (None, check_success content success_patterns (analyze_log_content e content t))
      | Unreadable msg \<Rightarrow>
          (None,
           t\<lparr>issues := issues t @
             [\<lparr>type = ustr ''log_read_error'',
               message = ustr ''Error reading log file: '' @ msg,
               mod_name = None,
               severity = ustr ''critical'',
               timestamp = None\<rparr>]\<rparr>))"

text \<open>
  \<open>run_test\<close> runs \<open>monitor_logs\<close> in a thread and joins it. An exception that
  leaves \<open>monitor_logs\<close> ends that thread only (the interpreter reports it on the
  error stream); \<open>run_test\<close> goes on with the state the thread has left.
\<close>

definition monitor_thread :: "env \<Rightarrow> tester \<Rightarrow> tester" where
  "monitor_thread e t = snd (monitor_logs e t)"

section \<open>The report\<close>

record report =
  test_timestamp :: pystr
  minecraft_directory :: pystr
  report_startup_successful :: bool
  total_issues :: nat
  critical_issues :: nat
  warning_issues :: nat
  report_issues :: "issue list"

text \<open>One printed entry of the critical or of the warnings block.\<close>

definition issue_line :: "issue \<Rightarrow> pystr" where
  "issue_line i =
     [32, 32, 8226, 32] @ upper (type i) @ ustr '': '' @ take 100 (message i) @ ustr ''...''"

definition related_mod :: "issue \<Rightarrow> pystr list" where
  "related_mod i =
     (case mod_name i of
        None \<Rightarrow> []
      | Some m \<Rightarrow> if m \<noteq> ustr ''unknown'' then [ustr ''    Related mod: '' @ m] else [])"

definition critical_block :: "issue list \<Rightarrow> pystr list" where
  "critical_block critical =
     (if critical \<noteq> []
      then ustr ''CRITICAL ISSUES (prevent startup):'' #
           concat (map (\<lambda>i. issue_line i # related_mod i) critical)
      else [])"

definition more_line :: "nat \<Rightarrow> pystr" where
  "more_line n = ustr ''  ... and '' @ decimal n @ ustr '' more warnings''"

definition warnings_block :: "issue list \<Rightarrow> pystr list" where
  "warnings_block warnings =
     (if warnings \<noteq> []
      then ([10] @ ustr ''WARNINGS (may cause issues):'') #
           map issue_line (take 5 warnings) @
           (if length warnings > 5 then [more_line (length warnings - 5)] else [])
      else [])"

definition summary_head :: "tester \<Rightarrow> report \<Rightarrow> pystr list" where
  "summary_head t r =
     [[10] @ replicate 60 61,
      ustr ''MINECRAFT MODPACK STARTUP TEST REPORT'',
      replicate 60 61,
      ustr ''Test completed: '' @ test_timestamp r,
      ustr ''Startup successful: '' @
        (if startup_successful t then [10003] @ ustr '' YES'' else [10007] @ ustr '' NO''),
      ustr ''Total issues found: '' @ decimal (total_issues r),
      ustr ''Critical issues: '' @ decimal (critical_issues r),
      ustr ''Warnings: '' @ decimal (warning_issues r)]"

definition issues_detected :: "tester \<Rightarrow> pystr list" where
  "issues_detected t =
     (if issues t \<noteq> []
      then [[10] @ ustr ''ISSUES DETECTED:'', replicate 40 45] @
           critical_block (filter (\<lambda>i. severity i = ustr ''critical'') (issues t)) @
           warnings_block (filter (\<lambda>i. severity i = ustr ''warning'') (issues t))
      else [])"

text \<open>
  \<open>generate_report\<close> reads the clock twice (the report's time stamp and the file
  name). Opening the report file may raise, which nothing in the class catches; the
  summary is printed only after the file is written.
\<close>

definition report_file :: "env \<Rightarrow> tester \<Rightarrow> pystr" where
  "report_file e t =
     path_str e (minecraft_dir t)
       [ustr ''startup_test_report_'' @ strftime e (Suc (clock_reads t)) @ ustr ''.json'']"

definition generate_report :: "env \<Rightarrow> tester \<Rightarrow> error + (report \<times> tester)" where
  "generate_report e t =
     (let r = \<lparr>test_timestamp = isoformat e (clock_reads t),
                minecraft_directory = minecraft_dir t,
                report_startup_successful = startup_successful t,
                total_issues = length (issues t),
                critical_issues =
                  length (filter (\<lambda>i. severity i = ustr ''critical'') (issues t)),
                warning_issues =
                  length (filter (\<lambda>i. severity i = ustr ''warning'') (issues t)),
                report_issues = issues t\<rparr>
      in if \<not> report_writable e then Inl PersistenceFailure
         else Inr (r, t\<lparr>stdout := stdout t @ summary_head t r @ issues_detected t @
                                  [[10] @ ustr ''Full report saved to: '' @ report_file e t],
                      clock_reads := clock_reads t + 2\<rparr>))"

definition run_test :: "env \<Rightarrow> tester \<Rightarrow> error + (report \<times> tester)" where
  "run_test e t0 =
     (let t1 = print (ustr ''Starting Minecraft Modpack Startup Test'') t0;
          t2 = print (replicate 50 61) t1;
          (launched, t3) = launch_minecraft t2
      in if \<not> launched then generate_report e t3
         else generate_report e (monitor_thread e t3))"

section \<open>What a classification produces\<close>

text \<open>An issue with its time stamp removed, to compare issues of different runs.\<close>

definition untimed :: "issue \<Rightarrow> issue" where
  "untimed i = i\<lparr>timestamp := None\<rparr>"

text \<open>The kinds of a signature table whose pattern the line matches, in table order.\<close>

definition hits :: "pystr \<Rightarrow> (pystr \<times> regex) list \<Rightarrow> pystr list" where
  "hits line table =
     map fst (filter (\<lambda>(error_type, pattern). re_search pattern line) table)"

text \<open>The issue that a match of kind \<open>error_type\<close> in \<open>line\<close> yields, time stamp aside.\<close>

definition bare :: "pystr \<Rightarrow> pystr \<Rightarrow> issue" where
  "bare line error_type =
     \<lparr>type = error_type,
      message = strip line,
      mod_name = Some (case mod_search line of Some name \<Rightarrow> name | None \<Rightarrow> ustr ''unknown''),
      severity = severity_of error_type,
      timestamp = None\<rparr>"

text \<open>The issues of the kinds \<open>ks\<close> for one line, stamped with the clock readings from \<open>n\<close> on.\<close>

fun stamp :: "env \<Rightarrow> pystr \<Rightarrow> pystr list \<Rightarrow> nat \<Rightarrow> issue list" where
  "stamp e line [] n = []"
| "stamp e line (k # ks) n =
     (bare line k)\<lparr>timestamp := Some (isoformat e n)\<rparr> # stamp e line ks (Suc n)"

fun stamp_all :: "env \<Rightarrow> pystr list \<Rightarrow> nat \<Rightarrow> issue list" where
  "stamp_all e [] n = []"
| "stamp_all e (l # ls) n =
     stamp e l (hits l error_patterns) n @
     stamp_all e ls (n + length (hits l error_patterns))"

text \<open>The issues of a sequence of lines, time stamps aside.\<close>

definition found_in :: "pystr list \<Rightarrow> issue list" where
  "found_in ls = concat (map (\<lambda>l. map (bare l) (hits l error_patterns)) ls)"

definition critical_kinds :: "pystr set" where
  "critical_kinds = {ustr ''mod_loading_error'', ustr ''memory_error'', ustr ''java_error''}"

section \<open>Sample environments\<close>

definition posix_path :: "pystr \<Rightarrow> pystr list \<Rightarrow> pystr" where
  "posix_path dir parts = foldl (\<lambda>p q. p @ [47] @ q) dir parts"

definition sample_env :: "artifact \<Rightarrow> env" where
  "sample_env a =
     \<lparr>log_artifact = a,
      report_writable = True,
      path_str = posix_path,
      isoformat = (\<lambda>n. ustr ''2024-05-01T10:00:0'' @ decimal n),
      strftime = (\<lambda>n. ustr ''20240501_10000'' @ decimal n)\<rparr>"

definition sample_dir :: pystr where
  "sample_dir = ustr ''/mc''"

definition crash_log :: pystr where
  "crash_log = ustr ''JVM crash'' @ [10] @ ustr ''Reached main menu''"

definition fnf_log :: pystr where
  "fnf_log = ustr ''Missing file''"

definition file_not_found_pattern :: regex where
  "file_not_found_pattern =
     [lit ''FileNotFoundException'', lit ''Could not find file'', lit ''Missing file'']"

definition two_log :: pystr where
  "two_log = ustr ''Mixin conflict FML''"

definition repeat_log :: pystr where
  "repeat_log = ustr ''FML FML''"

definition six_log :: pystr where
  "six_log =
     ustr ''FML'' @ [10] @ ustr ''FML'' @ [10] @ ustr ''FML'' @ [10] @
     ustr ''FML'' @ [10] @ ustr ''FML'' @ [10] @ ustr ''FML''"

definition shout_log :: pystr where
  "shout_log = ustr ''REACHED MAIN MENU''"

text \<open>
  The lower-case form of an ASCII letter. Two texts with the same image under it differ
  in the case of ASCII letters only.
\<close>

definition ascii_lower :: "codepoint \<Rightarrow> codepoint" where
  "ascii_lower c = (if 65 \<le> c \<and> c \<le> 90 then c + 32 else c)"

section \<open>Properties of the loops\<close>

lemma ustr_eq_iff [simp]: "ustr a = ustr b \<longleftrightarrow> a = b"
  unfolding ustr_def by (rule inj_map_eq_map) (simp add: inj_on_def)

lemma print_fields [simp]:
  "issues (print l t) = issues t"
  "startup_successful (print l t) = startup_successful t"
  "clock_reads (print l t) = clock_reads t"
  "log_file (print l t) = log_file t"
  "minecraft_dir (print l t) = minecraft_dir t"
  "stdout (print l t) = stdout t @ [l]"
  by (simp_all add: print_def)

lemma length_stamp [simp]: "length (stamp e line ks n) = length ks"
  by (induction ks arbitrary: n) simp_all

lemma untimed_stamp [simp]: "map untimed (stamp e line ks n) = map (bare line) ks"
  by (induction ks arbitrary: n) (simp_all add: untimed_def bare_def)

lemma scan_line_eq:
  "scan_line e line ps t =
     t\<lparr>issues := issues t @ stamp e line (hits line ps) (clock_reads t),
       clock_reads := clock_reads t + length (hits line ps)\<rparr>"
proof (induction ps arbitrary: t)
  case Nil
  show ?case by (simp add: hits_def)
next
  case (Cons p ps)
  obtain k rx where p: "p = (k, rx)" by (cases p)
  show ?case
    by (cases "re_search rx line") (simp_all add: p Cons.IH hits_def found_def bare_def)
qed

lemma length_stamp_all [simp]:
  "length (stamp_all e ls n) = length (concat (map (\<lambda>l. hits l error_patterns) ls))"
  by (induction ls arbitrary: n) simp_all

lemma untimed_stamp_all [simp]: "map untimed (stamp_all e ls n) = found_in ls"
  by (induction ls arbitrary: n) (simp_all add: found_in_def)

lemma scan_lines_eq:
  "scan_lines e ls t =
     t\<lparr>issues := issues t @ stamp_all e ls (clock_reads t),
       clock_reads := clock_reads t + length (stamp_all e ls (clock_reads t))\<rparr>"
proof (induction ls arbitrary: t)
  case Nil
  show ?case by simp
next
  case (Cons l ls)
  show ?case by (simp add: Cons.IH scan_line_eq)
qed

lemma check_success_eq:
  "check_success content ps t =
     (if list_ex (\<lambda>p. re_search p content) ps
      then print ([10003] @ ustr '' Log shows successful main menu load!'')
             (t\<lparr>startup_successful := True\<rparr>)
      else t)"
  by (induction ps) simp_all

lemma found_in_append [simp]: "found_in (xs @ ys) = found_in xs @ found_in ys"
  by (simp add: found_in_def)

lemma analyze_issues:
  "issues (analyze_log_content e content t) =
     issues t @ stamp_all e (split_nl content) (clock_reads t)"
  by (simp add: analyze_log_content_def scan_lines_eq)

lemma monitor_thread_issues:
  "issues (monitor_thread e t) = issues t @
     (case log_artifact e of
        Inaccessible \<Rightarrow> []
      | Missing \<Rightarrow>
          [\<lparr>type = ustr ''file_not_found'',
            message = ustr ''Log file not found: '' @ log_file t,
            mod_name = None, severity = ustr ''critical'', timestamp = None\<rparr>]
      | Unreadable msg \<Rightarrow>
          [\<lparr>type = ustr ''log_read_error'',
            message = ustr ''Error reading log file: '' @ msg,
            mod_name = None, severity = ustr ''critical'', timestamp = None\<rparr>]
      | Readable content \<Rightarrow> stamp_all e (split_nl content) (clock_reads t))"
  by (cases "log_artifact e")
     (simp_all add: monitor_thread_def monitor_logs_def Let_def check_success_eq analyze_issues)

lemma monitor_thread_success:
  "startup_successful (monitor_thread e t) =
     (case log_artifact e of
        Readable content \<Rightarrow>
          startup_successful t \<or> list_ex (\<lambda>p. re_search p content) success_patterns
      | _ \<Rightarrow> startup_successful t)"
  by (cases "log_artifact e")
     (simp_all add: monitor_thread_def monitor_logs_def Let_def check_success_eq analyze_log_content_def scan_lines_eq)

lemma run_test_eq:
  "run_test e t =
     generate_report e
       (monitor_thread e
          (print (ustr ''Analyzing existing log file...'')
             (print (replicate 50 61)
                (print (ustr ''Starting Minecraft Modpack Startup Test'') t))))"
  by (simp add: run_test_def launch_minecraft_def)

lemma generate_report_Inr:
  assumes "generate_report e t = Inr (r, t')"
  shows "report_issues r = issues t"
    and "total_issues r = length (issues t)"
    and "critical_issues r = length (filter (\<lambda>i. severity i = ustr ''critical'') (issues t))"
    and "warning_issues r = length (filter (\<lambda>i. severity i = ustr ''warning'') (issues t))"
    and "report_startup_successful r = startup_successful t"
    and "report_writable e"
  using assms by (auto simp: generate_report_def Let_def split: if_splits)

lemma generate_report_total:
  "report_writable e \<Longrightarrow> \<exists>r t'. generate_report e t = Inr (r, t')"
  by (simp add: generate_report_def Let_def)

lemma severity_of_cases:
  "severity_of k = ustr ''critical'' \<or> severity_of k = ustr ''warning''"
  by (simp add: severity_of_def)

lemma in_stamp:
  "i \<in> set (stamp e line ks n) \<Longrightarrow>
     type i \<in> set ks \<and> message i = strip line \<and> severity i = severity_of (type i) \<and>
     mod_name i \<noteq> None \<and> timestamp i \<noteq> None"
  by (induction ks arbitrary: n) (auto simp: bare_def)

lemma in_stamp_all:
  "i \<in> set (stamp_all e ls n) \<Longrightarrow>
     \<exists>l \<in> set ls. type i \<in> set (hits l error_patterns) \<and> message i = strip l \<and>
       severity i = severity_of (type i) \<and> mod_name i \<noteq> None \<and> timestamp i \<noteq> None"
proof (induction ls arbitrary: n)
  case Nil
  then show ?case by simp
next
  case (Cons l ls)
  from Cons.prems consider
    "i \<in> set (stamp e l (hits l error_patterns) n)"
    | "i \<in> set (stamp_all e ls (n + length (hits l error_patterns)))"
    by auto
  then show ?case
  proof cases
    case 1
    from in_stamp [OF 1] show ?thesis by simp
  next
    case 2
    from Cons.IH [OF 2] show ?thesis by auto
  qed
qed

lemma count_two_severities:
  assumes "\<forall>i \<in> set xs. severity i = c \<or> severity i = w" and "c \<noteq> w"
  shows "length (filter (\<lambda>i. severity i = c) xs) + length (filter (\<lambda>i. severity i = w) xs)
           = length xs"
  using assms by (induction xs) auto

lemma monitor_thread_severity:
  assumes "\<forall>i \<in> set (issues t). severity i = ustr ''critical'' \<or> severity i = ustr ''warning''"
    and "i \<in> set (issues (monitor_thread e t))"
  shows "severity i = ustr ''critical'' \<or> severity i = ustr ''warning''"
proof (cases "i \<in> set (issues t)")
  case True
  with assms(1) show ?thesis by blast
next
  case False
  show ?thesis
  proof (cases "log_artifact e")
    case Inaccessible
    with assms(2) False show ?thesis by (simp add: monitor_thread_issues)
  next
    case Missing
    with assms(2) False show ?thesis by (simp add: monitor_thread_issues)
  next
    case (Unreadable msg)
    with assms(2) False show ?thesis by (simp add: monitor_thread_issues)
  next
    case (Readable content)
    with assms(2) False
    have "i \<in> set (stamp_all e (split_nl content) (clock_reads t))"
      by (simp add: monitor_thread_issues)
    from in_stamp_all [OF this] severity_of_cases [of "type i"] show ?thesis by auto
  qed
qed

lemma run_test_total:
  "report_writable e \<Longrightarrow> \<exists>r t'. run_test e t = Inr (r, t')"
  unfolding run_test_eq by (rule generate_report_total)

section \<open>Sample logs and the report of a run\<close>

lemma hits_crash: "hits (ustr ''JVM crash'') error_patterns = [ustr ''java_error'']"
  by (simp add: hits_def error_patterns_def re_search_def lit_def ustr_def fold_ci_def)

lemma hits_menu: "hits (ustr ''Reached main menu'') error_patterns = []"
  by (simp add: hits_def error_patterns_def re_search_def lit_def ustr_def fold_ci_def)

lemma split_crash: "split_nl crash_log = [ustr ''JVM crash'', ustr ''Reached main menu'']"
  by (simp add: crash_log_def ustr_def)


lemma split_fnf: "split_nl fnf_log = [ustr ''Missing file'']"
  by (simp add: fnf_log_def ustr_def)

lemma success_crash: "list_ex (\<lambda>p. re_search p crash_log) success_patterns"
  by (simp add: crash_log_def success_patterns_def re_search_def lit_def ustr_def fold_ci_def)

lemma hits_member:
  "k \<in> set (hits line ps) \<longleftrightarrow> (\<exists>p. (k, p) \<in> set ps \<and> re_search p line)"
  by (force simp: hits_def)

lemma bare_in_found_in:
  "l \<in> set ls \<Longrightarrow> k \<in> set (hits l error_patterns) \<Longrightarrow> bare l k \<in> set (found_in ls)"
  by (auto simp: found_in_def)

lemma stamp_all_has:
  assumes "l \<in> set ls" and "k \<in> set (hits l error_patterns)"
  shows "\<exists>i \<in> set (stamp_all e ls n). type i = k \<and> message i = strip l \<and>
           severity i = severity_of k"
proof -
  have "set (found_in ls) = untimed ` set (stamp_all e ls n)"
    by (simp only: untimed_stamp_all [of e ls n, symmetric] set_map)
  with bare_in_found_in [OF assms]
  obtain i where i: "i \<in> set (stamp_all e ls n)" and u: "untimed i = bare l k"
    by auto
  have "type (untimed i) = type i" "message (untimed i) = message i"
    "severity (untimed i) = severity i" by (simp_all add: untimed_def)
  with u have "type i = k \<and> message i = strip l \<and> severity i = severity_of k"
    by (simp add: bare_def)
  with i show ?thesis by blast
qed

lemma fresh_fields [simp]:
  "issues (MinecraftTester e dir) = []"
  "startup_successful (MinecraftTester e dir) = False"
  "clock_reads (MinecraftTester e dir) = 0"
  "log_file (MinecraftTester e dir) = path_str e dir [ustr ''logs'', ustr ''latest.log'']"
  by (simp_all add: MinecraftTester_def)

lemma run_test_report:
  assumes "run_test e (MinecraftTester e dir) = Inr (r, t)"
  shows "report_issues r =
           (case log_artifact e of
              Inaccessible \<Rightarrow> []
            | Missing \<Rightarrow>
                [\<lparr>type = ustr ''file_not_found'',
                  message = ustr ''Log file not found: '' @
                            path_str e dir [ustr ''logs'', ustr ''latest.log''],
                  mod_name = None, severity = ustr ''critical'', timestamp = None\<rparr>]
            | Unreadable msg \<Rightarrow>
                [\<lparr>type = ustr ''log_read_error'',
                  message = ustr ''Error reading log file: '' @ msg,
                  mod_name = None, severity = ustr ''critical'', timestamp = None\<rparr>]
            | Readable content \<Rightarrow> stamp_all e (split_nl content) 0)"
    and "report_startup_successful r =
           (case log_artifact e of
              Readable content \<Rightarrow> list_ex (\<lambda>p. re_search p content) success_patterns
            | _ \<Rightarrow> False)"
    and "total_issues r = length (report_issues r)"
    and "critical_issues r =
           length (filter (\<lambda>i. severity i = ustr ''critical'') (report_issues r))"
    and "warning_issues r =
           length (filter (\<lambda>i. severity i = ustr ''warning'') (report_issues r))"
proof -
  let ?t0 = "print (ustr ''Analyzing existing log file...'')
               (print (replicate 50 61)
                  (print (ustr ''Starting Minecraft Modpack Startup Test'')
                     (MinecraftTester e dir)))"
  from assms have g: "generate_report e (monitor_thread e ?t0) = Inr (r, t)"
    by (simp add: run_test_eq)
  note G = generate_report_Inr [OF g]
  show "report_issues r =
           (case log_artifact e of
              Inaccessible \<Rightarrow> []
            | Missing \<Rightarrow>
                [\<lparr>type = ustr ''file_not_found'',
                  message = ustr ''Log file not found: '' @
                            path_str e dir [ustr ''logs'', ustr ''latest.log''],
                  mod_name = None, severity = ustr ''critical'', timestamp = None\<rparr>]
            | Unreadable msg \<Rightarrow>
                [\<lparr>type = ustr ''log_read_error'',
                  message = ustr ''Error reading log file: '' @ msg,
                  mod_name = None, severity = ustr ''critical'', timestamp = None\<rparr>]
            | Readable content \<Rightarrow> stamp_all e (split_nl content) 0)"
    by (cases "log_artifact e") (simp_all add: G(1) monitor_thread_issues)
  show "report_startup_successful r =
           (case log_artifact e of
              Readable content \<Rightarrow> list_ex (\<lambda>p. re_search p content) success_patterns
            | _ \<Rightarrow> False)"
    by (cases "log_artifact e") (simp_all add: G(5) monitor_thread_success)
  show "total_issues r = length (report_issues r)" by (simp add: G)
  show "critical_issues r =
           length (filter (\<lambda>i. severity i = ustr ''critical'') (report_issues r))"
    by (simp add: G)
  show "warning_issues r =
           length (filter (\<lambda>i. severity i = ustr ''warning'') (report_issues r))"
    by (simp add: G)
qed

lemma run_test_clock:
  assumes "run_test e (MinecraftTester e dir) = Inr (r, t)"
  shows "clock_reads t = 2 +
           (case log_artifact e of Readable content \<Rightarrow> length (stamp_all e (split_nl content) 0)
            | _ \<Rightarrow> 0)"
  using assms
  by (cases "log_artifact e")
     (auto simp: run_test_eq generate_report_def Let_def monitor_thread_def monitor_logs_def check_success_eq
        analyze_log_content_def scan_lines_eq print_def split: if_splits)

lemma bare_crash:
  "bare (ustr ''JVM crash'') k =
     \<lparr>type = k, message = ustr ''JVM crash'', mod_name = Some (ustr ''unknown''),
      severity = severity_of k, timestamp = None\<rparr>"
  by (simp add: bare_def strip_def is_space_def ustr_def mod_match_here_def fold_ci_def)


lemma sample_env_fields [simp]:
  "log_artifact (sample_env a) = a"
  "report_writable (sample_env a)"
  "path_str (sample_env a) = posix_path"
  "isoformat (sample_env a) n = ustr ''2024-05-01T10:00:0'' @ decimal n"
  by (simp_all add: sample_env_def)

lemma critical_kinds_iff:
  "severity_of k = ustr ''critical'' \<longleftrightarrow> k \<in> critical_kinds"
  "severity_of k = ustr ''warning'' \<longleftrightarrow> k \<notin> critical_kinds"
  by (simp_all add: severity_of_def critical_kinds_def)


lemma file_not_found_in_table:
  "(ustr ''file_not_found'', file_not_found_pattern) \<in> set error_patterns"
  by (simp add: error_patterns_def file_not_found_pattern_def)


lemma hits_two:
  "hits two_log error_patterns = [ustr ''mixin_error'', ustr ''forge_error'']"
  by (simp add: two_log_def hits_def error_patterns_def re_search_def lit_def ustr_def
      fold_ci_def)

lemma split_two: "split_nl two_log = [two_log]"
  by (simp add: two_log_def ustr_def)

lemma bare_two:
  "bare two_log k =
     \<lparr>type = k, message = ustr ''Mixin conflict FML'', mod_name = Some (ustr ''unknown''),
      severity = severity_of k, timestamp = None\<rparr>"
  by (simp add: two_log_def bare_def strip_def is_space_def ustr_def mod_match_here_def
      fold_ci_def)

lemma hits_repeat: "hits repeat_log error_patterns = [ustr ''forge_error'']"
  by (simp add: repeat_log_def hits_def error_patterns_def re_search_def lit_def ustr_def
      fold_ci_def)

lemma split_repeat: "split_nl repeat_log = [repeat_log]"
  by (simp add: repeat_log_def ustr_def)

lemma bare_repeat:
  "bare repeat_log k =
     \<lparr>type = k, message = ustr ''FML FML'', mod_name = Some (ustr ''unknown''),
      severity = severity_of k, timestamp = None\<rparr>"
  by (simp add: repeat_log_def bare_def strip_def is_space_def ustr_def mod_match_here_def
      fold_ci_def)

lemma distinct_kinds: "distinct (map fst error_patterns)"
  by (simp add: error_patterns_def)

lemma length_error_patterns: "length error_patterns = 10"
  by (simp add: error_patterns_def)

lemma distinct_hits: "distinct (hits line error_patterns)"
  unfolding hits_def by (rule distinct_map_filter) (rule distinct_kinds)

lemma length_hits: "length (hits line error_patterns) \<le> 10"
  unfolding hits_def length_map length_error_patterns [symmetric] by (rule length_filter_le)

lemma distinct_filter_eq: "distinct xs \<Longrightarrow> length (filter (\<lambda>x. x = k) xs) \<le> Suc 0"
  by (induction xs) (auto simp: filter_empty_conv)

lemma filter_type_bare:
  "filter (\<lambda>i. type i = k) (map (bare line) ks) = map (bare line) (filter (\<lambda>x. x = k) ks)"
  by (induction ks) (simp_all add: bare_def)

lemma analyze_decompose:
  assumes "split_nl content = before @ line # after"
  shows "map untimed (drop (length (issues t)) (issues (analyze_log_content e content t))) =
           found_in before @ map (bare line) (hits line error_patterns) @ found_in after"
  by (simp add: analyze_issues assms found_in_def)

lemma distinct_pair:
  assumes "distinct xs" and "set xs = {a, b}" and "a \<noteq> b"
  shows "xs = [a, b] \<or> xs = [b, a]"
proof -
  from assms have "length xs = 2" by (simp add: distinct_card [symmetric])
  then obtain x y where xs: "xs = [x, y]"
    by (cases xs; cases "tl xs"; cases "tl (tl xs)") auto
  with assms(2) show ?thesis by (auto simp: doubleton_eq_iff)
qed

lemma hits_fml: "hits (ustr ''FML'') error_patterns = [ustr ''forge_error'']"
  by (simp add: hits_def error_patterns_def re_search_def lit_def ustr_def fold_ci_def)

lemma split_six:
  "split_nl six_log =
     [ustr ''FML'', ustr ''FML'', ustr ''FML'', ustr ''FML'', ustr ''FML'', ustr ''FML'']"
  by (simp add: six_log_def ustr_def)

lemma severity_stamped:
  "severity ((bare line k)\<lparr>timestamp := ts\<rparr>) = severity_of k"
  by (simp add: bare_def)

lemma forge_is_warning: "severity_of (ustr ''forge_error'') = ustr ''warning''"
  by (simp add: severity_of_def)

lemma more_line_1: "more_line (6 - 5) = ustr ''  ... and 1 more warnings''"
  by (simp add: more_line_def decimal.simps ustr_def)

lemma fold_ci_ascii_lower: "fold_ci (ascii_lower c) = fold_ci c"
  by (simp add: fold_ci_def ascii_lower_def)

lemma ascii_lower_nl: "ascii_lower c = 10 \<longleftrightarrow> c = 10"
  by (simp add: ascii_lower_def)

lemma match_here_lower: "match_here b (map ascii_lower s) = match_here b s"
  by (induction b s rule: match_here.induct)
     (simp_all add: fold_ci_ascii_lower ascii_lower_nl)

lemma search_branch_lower: "search_branch b (map ascii_lower s) = search_branch b s"
proof (induction s)
  case Nil
  show ?case by simp
next
  case (Cons c cs)
  have "match_here b (ascii_lower c # map ascii_lower cs) = match_here b (c # cs)"
    using match_here_lower [of b "c # cs"] by simp
  then show ?case by (simp add: Cons.IH)
qed

lemma re_search_lower: "re_search rx (map ascii_lower s) = re_search rx s"
  by (simp add: re_search_def search_branch_lower)

lemma re_search_case_blind:
  assumes "map ascii_lower s' = map ascii_lower s"
  shows "re_search rx s' = re_search rx s"
proof -
  have "re_search rx s' = re_search rx (map ascii_lower s')" by (simp add: re_search_lower)
  also have "\<dots> = re_search rx (map ascii_lower s)" by (simp add: assms)
  also have "\<dots> = re_search rx s" by (simp add: re_search_lower)
  finally show ?thesis .
qed

lemma success_shout: "list_ex (\<lambda>p. re_search p shout_log) success_patterns"
  by (simp add: shout_log_def success_patterns_def re_search_def lit_def ustr_def fold_ci_def)

lemma hits_shout: "hits shout_log error_patterns = []"
  by (simp add: shout_log_def hits_def error_patterns_def re_search_def lit_def ustr_def
      fold_ci_def)

lemma split_shout: "split_nl shout_log = [shout_log]"
  by (simp add: shout_log_def ustr_def)

lemma shout_same_letters:
  "map ascii_lower shout_log = map ascii_lower (ustr ''Reached main menu'')"
  by (simp add: shout_log_def ustr_def ascii_lower_def)

lemma inaccessible_log_report:
  assumes "log_artifact e = Inaccessible"
    and "run_test e (MinecraftTester e dir) = Inr (r, t)"
  shows "report_issues r = [] \<and> \<not> report_startup_successful r"
  using run_test_report(1,2) [OF assms(2)] assms(1) by simp

section \<open>The claims\<close>

text \<open>
  C1. In the report of every run, the critical and the warning count add up to the total
  count, which is the length of the issue list: every issue that a run appends has
  severity \<open>critical\<close> or \<open>warning\<close>, and \<open>generate_report\<close> counts the same list
  three times.
\<close>

theorem report_counts:
  assumes "run_test e (MinecraftTester e dir) = Inr (r, t)"
  shows "critical_issues r + warning_issues r = total_issues r \<and>
         total_issues r = length (report_issues r) \<and>
         (\<forall>i \<in> set (report_issues r).
            severity i = ustr ''critical'' \<or> severity i = ustr ''warning'')"
proof -
  let ?t0 = "print (ustr ''Analyzing existing log file...'')
               (print (replicate 50 61)
                  (print (ustr ''Starting Minecraft Modpack Startup Test'')
                     (MinecraftTester e dir)))"
  from assms have g: "generate_report e (monitor_thread e ?t0) = Inr (r, t)"
    by (simp add: run_test_eq)
  have "issues ?t0 = []" by (simp add: MinecraftTester_def)
  then have sev: "\<forall>i \<in> set (issues (monitor_thread e ?t0)).
      severity i = ustr ''critical'' \<or> severity i = ustr ''warning''"
    using monitor_thread_severity [of ?t0 _ e] by simp
  have ne: "ustr ''critical'' \<noteq> ustr ''warning''" by simp
  from count_two_severities [OF sev ne] generate_report_Inr [OF g] sev
  show ?thesis by simp
qed

theorem report_counts_witness:
  "\<exists>r t. run_test (sample_env (Readable crash_log))
            (MinecraftTester (sample_env (Readable crash_log)) sample_dir) = Inr (r, t) \<and>
     critical_issues r + warning_issues r = total_issues r \<and>
     total_issues r = length (report_issues r) \<and>
     total_issues r = 1 \<and> critical_issues r = 1 \<and> warning_issues r = 0"
proof -
  let ?e = "sample_env (Readable crash_log)"
  have w: "report_writable ?e" by (simp add: sample_env_def)
  obtain r t where rt: "run_test ?e (MinecraftTester ?e sample_dir) = Inr (r, t)"
    using run_test_total [OF w] by blast
  have c: "critical_issues r + warning_issues r = total_issues r \<and>
         total_issues r = length (report_issues r)"
    using report_counts [OF rt] by simp
  have la: "log_artifact ?e = Readable crash_log" by (simp add: sample_env_def)
  from rt have g: "generate_report ?e
      (monitor_thread ?e
         (print (ustr ''Analyzing existing log file...'')
            (print (replicate 50 61)
               (print (ustr ''Starting Minecraft Modpack Startup Test'')
                  (MinecraftTester ?e sample_dir))))) = Inr (r, t)"
    by (simp add: run_test_eq)
  have "critical_issues r = 1"
    using generate_report_Inr(3) [OF g]
    by (simp add: monitor_thread_issues la split_crash hits_crash hits_menu
        MinecraftTester_def bare_def severity_of_def)
  moreover have "total_issues r = 1"
    using generate_report_Inr(2) [OF g]
    by (simp add: monitor_thread_issues la split_crash hits_crash hits_menu MinecraftTester_def)
  ultimately show ?thesis using c rt by auto
qed

text \<open>
  C8. Classification is deterministic: two classifications of the same text, whatever
  the clock and whatever state each starts from, append issue sequences that are equal
  in content and order once the time stamps are removed, and leave the issues that were
  there before untouched.
\<close>

theorem classification_repeatable:
  "map untimed (drop (length (issues t1)) (issues (analyze_log_content e1 content t1))) =
   map untimed (drop (length (issues t2)) (issues (analyze_log_content e2 content t2))) \<and>
   take (length (issues t1)) (issues (analyze_log_content e1 content t1)) = issues t1"
  by (simp add: analyze_issues)

text \<open>
  C3. When the log artifact does not exist and the report can be written, the run
  produces a report with exactly one issue, of kind \<open>file_not_found\<close> and severity
  \<open>critical\<close>, with \<open>startup_successful\<close> false; the content is not analysed: no
  other issue is produced and the clock is read only by the report itself.
\<close>

theorem missing_log:
  assumes "log_artifact e = Missing" and "report_writable e"
  shows "\<exists>r t. run_test e (MinecraftTester e dir) = Inr (r, t) \<and>
           report_issues r =
             [\<lparr>type = ustr ''file_not_found'',
               message = ustr ''Log file not found: '' @
                         path_str e dir [ustr ''logs'', ustr ''latest.log''],
               mod_name = None, severity = ustr ''critical'', timestamp = None\<rparr>] \<and>
           total_issues r = 1 \<and> critical_issues r = 1 \<and> warning_issues r = 0 \<and>
           \<not> report_startup_successful r \<and> clock_reads t = 2"
proof -
  from run_test_total [OF assms(2)] obtain r t
    where rt: "run_test e (MinecraftTester e dir) = Inr (r, t)" by blast
  from run_test_report [OF rt] run_test_clock [OF rt] assms(1) rt
  show ?thesis by simp
qed

theorem missing_log_witness:
  "log_artifact (sample_env Missing) = Missing \<and> report_writable (sample_env Missing) \<and>
   (\<exists>r t. run_test (sample_env Missing) (MinecraftTester (sample_env Missing) sample_dir)
            = Inr (r, t) \<and>
      report_issues r =
        [\<lparr>type = ustr ''file_not_found'',
          message = ustr ''Log file not found: /mc/logs/latest.log'',
          mod_name = None, severity = ustr ''critical'', timestamp = None\<rparr>] \<and>
      total_issues r = 1 \<and> critical_issues r = 1 \<and> warning_issues r = 0 \<and>
      \<not> report_startup_successful r)"
proof -
  have a: "log_artifact (sample_env Missing) = Missing"
    and w: "report_writable (sample_env Missing)"
    by (simp_all add: sample_env_def)
  have p: "path_str (sample_env Missing) sample_dir [ustr ''logs'', ustr ''latest.log'']
             = ustr ''/mc/logs/latest.log''"
    by (simp add: sample_env_def sample_dir_def posix_path_def ustr_def)
  have m: "ustr ''Log file not found: '' @ ustr ''/mc/logs/latest.log''
             = ustr ''Log file not found: /mc/logs/latest.log''"
    by (simp add: ustr_def)
  from missing_log [OF a w, of sample_dir] a w show ?thesis
    unfolding p m by blast
qed

text \<open>
  C4. For a log that is read, the report's \<open>startup_successful\<close> is true exactly when
  the whole text matches one of the success patterns. The match is case-insensitive: a
  log that differs from this one only in the case of ASCII letters gets the same flag,
  and the log \<open>REACHED MAIN MENU\<close> is a successful start. Whether the flag is set has
  no effect on the scan for errors: the report holds the issues of every line and of
  every signature the line matches. Both can hold at once, as the sample log with
  \<open>JVM crash\<close> on one line and \<open>Reached main menu\<close> on the next shows.
\<close>

theorem success_flag:
  assumes "log_artifact e = Readable content"
    and "run_test e (MinecraftTester e dir) = Inr (r, t)"
  shows "report_startup_successful r =
           list_ex (\<lambda>p. re_search p content) success_patterns \<and>
         (\<forall>e' dir' content' r' t'.
            log_artifact e' = Readable content' \<longrightarrow>
            map ascii_lower content' = map ascii_lower content \<longrightarrow>
            run_test e' (MinecraftTester e' dir') = Inr (r', t') \<longrightarrow>
            report_startup_successful r' = report_startup_successful r) \<and>
         map untimed (report_issues r) = found_in (split_nl content) \<and>
         (\<exists>r' t'. run_test (sample_env (Readable crash_log))
                     (MinecraftTester (sample_env (Readable crash_log)) sample_dir)
                   = Inr (r', t') \<and>
                  report_startup_successful r' \<and> report_issues r' \<noteq> []) \<and>
         (\<exists>r' t'. run_test (sample_env (Readable shout_log))
                     (MinecraftTester (sample_env (Readable shout_log)) sample_dir)
                   = Inr (r', t') \<and>
                  report_startup_successful r')"
proof -
  let ?e = "sample_env (Readable crash_log)"
  obtain r' t' where rt: "run_test ?e (MinecraftTester ?e sample_dir) = Inr (r', t')"
    using run_test_total [OF sample_env_fields(2)] by blast
  have "report_startup_successful r'"
    using run_test_report(2) [OF rt] by (simp add: success_crash)
  moreover have "report_issues r' \<noteq> []"
    using run_test_report(1) [OF rt] by (simp add: split_crash hits_crash)
  ultimately have ex: "\<exists>r' t'. run_test ?e (MinecraftTester ?e sample_dir) = Inr (r', t') \<and>
      report_startup_successful r' \<and> report_issues r' \<noteq> []"
    using rt by blast
  let ?s = "sample_env (Readable shout_log)"
  obtain r2 t2 where rt2: "run_test ?s (MinecraftTester ?s sample_dir) = Inr (r2, t2)"
    using run_test_total [OF sample_env_fields(2)] by blast
  have "report_startup_successful r2"
    using run_test_report(2) [OF rt2] by (simp add: success_shout)
  with rt2 have ex2: "\<exists>r' t'. run_test ?s (MinecraftTester ?s sample_dir) = Inr (r', t') \<and>
      report_startup_successful r'"
    by blast
  have flag: "report_startup_successful r =
      list_ex (\<lambda>p. re_search p content) success_patterns"
    using run_test_report(2) [OF assms(2)] assms(1) by simp
  have blind: "report_startup_successful r' = report_startup_successful r"
    if a: "log_artifact e' = Readable content'"
      and m: "map ascii_lower content' = map ascii_lower content"
      and g: "run_test e' (MinecraftTester e' dir') = Inr (r', t')"
    for e' dir' content' r' t'
  proof -
    have "report_startup_successful r' =
        list_ex (\<lambda>p. re_search p content') success_patterns"
      using run_test_report(2) [OF g] a by simp
    also have "\<dots> = list_ex (\<lambda>p. re_search p content) success_patterns"
      by (simp add: re_search_case_blind [OF m])
    finally show ?thesis by (simp add: flag)
  qed
  have iss: "map untimed (report_issues r) = found_in (split_nl content)"
    using run_test_report(1) [OF assms(2)] assms(1) by simp
  from flag blind iss ex ex2 show ?thesis by blast
qed

theorem success_flag_witness:
  "(\<exists>r t. run_test (sample_env (Readable crash_log))
            (MinecraftTester (sample_env (Readable crash_log)) sample_dir) = Inr (r, t) \<and>
     report_startup_successful r \<and>
     map untimed (report_issues r) =
       [\<lparr>type = ustr ''java_error'', message = ustr ''JVM crash'',
         mod_name = Some (ustr ''unknown''), severity = ustr ''critical'',
         timestamp = None\<rparr>]) \<and>
   (\<exists>r t. run_test (sample_env (Readable shout_log))
            (MinecraftTester (sample_env (Readable shout_log)) sample_dir) = Inr (r, t) \<and>
     report_startup_successful r \<and> report_issues r = []) \<and>
   (\<exists>r t. run_test (sample_env (Readable (ustr ''Reached main menu'')))
            (MinecraftTester (sample_env (Readable (ustr ''Reached main menu''))) sample_dir)
          = Inr (r, t) \<and>
     report_startup_successful r)"
proof -
  let ?e = "sample_env (Readable crash_log)"
  obtain r t where rt: "run_test ?e (MinecraftTester ?e sample_dir) = Inr (r, t)"
    using run_test_total [OF sample_env_fields(2)] by blast
  have la: "log_artifact ?e = Readable crash_log" by simp
  from success_flag [OF la rt]
  have "report_startup_successful r"
    and "map untimed (report_issues r) = found_in (split_nl crash_log)"
    by (simp_all add: success_crash)
  then have A: "\<exists>r t. run_test ?e (MinecraftTester ?e sample_dir) = Inr (r, t) \<and>
     report_startup_successful r \<and>
     map untimed (report_issues r) =
       [\<lparr>type = ustr ''java_error'', message = ustr ''JVM crash'',
         mod_name = Some (ustr ''unknown''), severity = ustr ''critical'',
         timestamp = None\<rparr>]"
    using rt
    by (auto simp: split_crash found_in_def hits_crash hits_menu bare_crash severity_of_def)
  let ?s = "sample_env (Readable shout_log)"
  obtain r2 t2 where rt2: "run_test ?s (MinecraftTester ?s sample_dir) = Inr (r2, t2)"
    using run_test_total [OF sample_env_fields(2)] by blast
  have ls: "log_artifact ?s = Readable shout_log" by simp
  note S = success_flag [OF ls rt2]
  from S have s1: "report_startup_successful r2" by (simp add: success_shout)
  from S have "map untimed (report_issues r2) = found_in (split_nl shout_log)" by simp
  then have s2: "report_issues r2 = []"
    by (simp add: split_shout found_in_def hits_shout)
  from rt2 s1 s2 have B: "\<exists>r t. run_test ?s (MinecraftTester ?s sample_dir) = Inr (r, t) \<and>
     report_startup_successful r \<and> report_issues r = []"
    by blast
  let ?m = "sample_env (Readable (ustr ''Reached main menu''))"
  obtain r3 t3 where rt3: "run_test ?m (MinecraftTester ?m sample_dir) = Inr (r3, t3)"
    using run_test_total [OF sample_env_fields(2)] by blast
  have lm: "log_artifact ?m = Readable (ustr ''Reached main menu'')" by simp
  from S have "\<forall>e' dir' content' r' t'.
            log_artifact e' = Readable content' \<longrightarrow>
            map ascii_lower content' = map ascii_lower shout_log \<longrightarrow>
            run_test e' (MinecraftTester e' dir') = Inr (r', t') \<longrightarrow>
            report_startup_successful r' = report_startup_successful r2"
    by blast
  from this [rule_format, OF lm shout_same_letters [symmetric] rt3] s1
  have "report_startup_successful r3" by simp
  with rt3 have C: "\<exists>r t. run_test ?m (MinecraftTester ?m sample_dir) = Inr (r, t) \<and>
     report_startup_successful r"
    by blast
  from A B C show ?thesis by (intro conjI)
qed

text \<open>
  C6. The severity of an issue that \<open>analyze_log_content\<close> appends is a function of
  its kind alone: \<open>critical\<close> exactly for the kinds \<open>mod_loading_error\<close>,
  \<open>memory_error\<close> and \<open>java_error\<close>, and \<open>warning\<close> exactly for every other kind.
\<close>

theorem severity_by_kind:
  assumes "i \<in> set (drop (length (issues t)) (issues (analyze_log_content e content t)))"
  shows "severity i = severity_of (type i) \<and>
         (severity i = ustr ''critical'' \<longleftrightarrow> type i \<in> critical_kinds) \<and>
         (severity i = ustr ''warning'' \<longleftrightarrow> type i \<notin> critical_kinds)"
proof -
  from assms have "i \<in> set (stamp_all e (split_nl content) (clock_reads t))"
    by (simp add: analyze_issues)
  from in_stamp_all [OF this] have "severity i = severity_of (type i)" by blast
  then show ?thesis by (simp add: critical_kinds_iff)
qed

theorem severity_by_kind_witness:
  "\<lparr>type = ustr ''java_error'', message = ustr ''JVM crash'',
     mod_name = Some (ustr ''unknown''), severity = ustr ''critical'',
     timestamp = Some (ustr ''2024-05-01T10:00:00'')\<rparr>
     \<in> set (drop (length (issues (MinecraftTester (sample_env Missing) sample_dir)))
              (issues (analyze_log_content (sample_env Missing) crash_log
                 (MinecraftTester (sample_env Missing) sample_dir)))) \<and>
   ustr ''java_error'' \<in> critical_kinds \<and>
   severity_of (ustr ''java_error'') = ustr ''critical''"
proof -
  let ?i = "\<lparr>type = ustr ''java_error'', message = ustr ''JVM crash'',
     mod_name = Some (ustr ''unknown''), severity = ustr ''critical'',
     timestamp = Some (ustr ''2024-05-01T10:00:00'')\<rparr>"
  have d: "ustr ''2024-05-01T10:00:0'' @ decimal 0 = ustr ''2024-05-01T10:00:00''"
    by (simp add: ustr_def decimal.simps)
  have m: "?i \<in> set (drop (length (issues (MinecraftTester (sample_env Missing) sample_dir)))
              (issues (analyze_log_content (sample_env Missing) crash_log
                 (MinecraftTester (sample_env Missing) sample_dir))))"
    by (simp add: analyze_issues split_crash hits_crash hits_menu bare_crash severity_of_def d)
  from severity_by_kind [OF m] m show ?thesis by simp
qed




text \<open>
  C10. The kind \<open>file_not_found\<close> determines neither severity nor origin. For a missing
  log the report's only issue has that kind with severity \<open>critical\<close>; for a log that
  was read, every issue of that kind has severity \<open>warning\<close>, and there is one for each
  line that matches the \<open>file_not_found\<close> signature.
\<close>

theorem file_not_found_two_severities:
  assumes "run_test e (MinecraftTester e dir) = Inr (r, t)"
  shows "(log_artifact e = Missing \<longrightarrow>
            map (\<lambda>i. (type i, severity i)) (report_issues r)
              = [(ustr ''file_not_found'', ustr ''critical'')]) \<and>
         (\<forall>content. log_artifact e = Readable content \<longrightarrow>
            (\<forall>i \<in> set (report_issues r).
               type i = ustr ''file_not_found'' \<longrightarrow> severity i = ustr ''warning'') \<and>
            (\<forall>line \<in> set (split_nl content).
               re_search file_not_found_pattern line \<longrightarrow>
               (\<exists>i \<in> set (report_issues r).
                  type i = ustr ''file_not_found'' \<and> severity i = ustr ''warning'' \<and>
                  message i = strip line)))"
proof (cases "log_artifact e")
  case Inaccessible
  then show ?thesis by simp
next
  case Missing
  with run_test_report(1) [OF assms] show ?thesis by simp
next
  case (Unreadable msg)
  then show ?thesis by simp
next
  case (Readable content)
  have w: "severity_of (ustr ''file_not_found'') = ustr ''warning''"
    by (simp add: severity_of_def)
  from run_test_report(1) [OF assms] Readable
  have iss: "report_issues r = stamp_all e (split_nl content) 0" by simp
  have a: "severity i = ustr ''warning''"
    if "i \<in> set (report_issues r)" and "type i = ustr ''file_not_found''" for i
  proof -
    from that(1) have "i \<in> set (stamp_all e (split_nl content) 0)" by (simp add: iss)
    from in_stamp_all [OF this] that(2) w show ?thesis by auto
  qed
  have b: "\<exists>i \<in> set (report_issues r).
      type i = ustr ''file_not_found'' \<and> severity i = ustr ''warning'' \<and> message i = strip line"
    if "line \<in> set (split_nl content)" and "re_search file_not_found_pattern line" for line
  proof -
    from that(2) file_not_found_in_table
    have "ustr ''file_not_found'' \<in> set (hits line error_patterns)"
      by (auto simp: hits_member)
    from stamp_all_has [OF that(1) this, of e 0] w show ?thesis by (auto simp: iss)
  qed
  from a b Readable show ?thesis by simp
qed

theorem file_not_found_two_severities_witness:
  "(\<exists>r t. run_test (sample_env Missing) (MinecraftTester (sample_env Missing) sample_dir)
              = Inr (r, t) \<and>
      map (\<lambda>i. (type i, severity i)) (report_issues r)
        = [(ustr ''file_not_found'', ustr ''critical'')]) \<and>
   (\<exists>r t i. run_test (sample_env (Readable fnf_log))
             (MinecraftTester (sample_env (Readable fnf_log)) sample_dir) = Inr (r, t) \<and>
      i \<in> set (report_issues r) \<and>
      type i = ustr ''file_not_found'' \<and> severity i = ustr ''warning'' \<and>
      message i = ustr ''Missing file'')"
proof -
  let ?m = "sample_env Missing" and ?f = "sample_env (Readable fnf_log)"
  obtain r t where rt: "run_test ?m (MinecraftTester ?m sample_dir) = Inr (r, t)"
    using run_test_total [OF sample_env_fields(2)] by blast
  obtain r' t' where rt': "run_test ?f (MinecraftTester ?f sample_dir) = Inr (r', t')"
    using run_test_total [OF sample_env_fields(2)] by blast
  from file_not_found_two_severities [OF rt]
  have 1: "map (\<lambda>i. (type i, severity i)) (report_issues r)
        = [(ustr ''file_not_found'', ustr ''critical'')]"
    by simp
  have s: "re_search file_not_found_pattern (ustr ''Missing file'')"
    by (simp add: file_not_found_pattern_def re_search_def lit_def ustr_def fold_ci_def)
  have st: "strip (ustr ''Missing file'') = ustr ''Missing file''"
    by (simp add: strip_def is_space_def ustr_def)
  from file_not_found_two_severities [OF rt'] s
  have "\<exists>i \<in> set (report_issues r').
      type i = ustr ''file_not_found'' \<and> severity i = ustr ''warning'' \<and>
      message i = strip (ustr ''Missing file'')"
    by (simp add: split_fnf)
  then obtain i where i: "i \<in> set (report_issues r')"
    "type i = ustr ''file_not_found''" "severity i = ustr ''warning''"
    "message i = ustr ''Missing file''"
    unfolding st by auto
  have A: "\<exists>r t. run_test ?m (MinecraftTester ?m sample_dir) = Inr (r, t) \<and>
      map (\<lambda>i. (type i, severity i)) (report_issues r)
        = [(ustr ''file_not_found'', ustr ''critical'')]"
    by (rule exI [of _ r], rule exI [of _ t]) (simp only: rt 1 simp_thms)
  have B: "\<exists>r t i. run_test ?f (MinecraftTester ?f sample_dir) = Inr (r, t) \<and>
      i \<in> set (report_issues r) \<and>
      type i = ustr ''file_not_found'' \<and> severity i = ustr ''warning'' \<and>
      message i = ustr ''Missing file''"
    by (rule exI [of _ r'], rule exI [of _ t'], rule exI [of _ i]) (simp only: rt' i simp_thms)
  from A B show ?thesis by (rule conjI)
qed

text \<open>
  C5. When a line of the text matches the patterns of exactly two signatures, of the
  distinct kinds \<open>k1\<close> and \<open>k2\<close>, the classification appends exactly two issues for that
  line, between the issues of the lines before it and those of the lines after it: one
  of kind \<open>k1\<close> and one of kind \<open>k2\<close>, both with the stripped line as message. No match
  ends the search through the signatures.
\<close>

theorem two_signatures:
  assumes "split_nl content = before @ line # after"
    and "k1 \<noteq> k2"
    and "{k. \<exists>p. (k, p) \<in> set error_patterns \<and> re_search p line} = {k1, k2}"
  shows "\<exists>i j. map untimed (drop (length (issues t))
                   (issues (analyze_log_content e content t)))
                 = found_in before @ [i, j] @ found_in after \<and>
               {type i, type j} = {k1, k2} \<and>
               message i = strip line \<and> message j = strip line"
proof -
  have "set (hits line error_patterns)
          = {k. \<exists>p. (k, p) \<in> set error_patterns \<and> re_search p line}"
    by (auto simp: hits_member)
  with assms(3) have "set (hits line error_patterns) = {k1, k2}" by simp
  from distinct_pair [OF distinct_hits this assms(2)]
  have "hits line error_patterns = [k1, k2] \<or> hits line error_patterns = [k2, k1]" .
  then show ?thesis
  proof
    assume h: "hits line error_patterns = [k1, k2]"
    show ?thesis
      by (rule exI [of _ "bare line k1"], rule exI [of _ "bare line k2"])
         (simp add: analyze_decompose [OF assms(1)] h bare_def)
  next
    assume h: "hits line error_patterns = [k2, k1]"
    show ?thesis
      by (rule exI [of _ "bare line k2"], rule exI [of _ "bare line k1"])
         (auto simp: analyze_decompose [OF assms(1)] h bare_def)
  qed
qed

theorem two_signatures_witness:
  "map untimed (drop (length (issues (MinecraftTester (sample_env Missing) sample_dir)))
      (issues (analyze_log_content (sample_env Missing) two_log
         (MinecraftTester (sample_env Missing) sample_dir))))
     = [\<lparr>type = ustr ''mixin_error'', message = ustr ''Mixin conflict FML'',
          mod_name = Some (ustr ''unknown''), severity = ustr ''warning'',
          timestamp = None\<rparr>,
        \<lparr>type = ustr ''forge_error'', message = ustr ''Mixin conflict FML'',
          mod_name = Some (ustr ''unknown''), severity = ustr ''warning'',
          timestamp = None\<rparr>] \<and>
   {k. \<exists>p. (k, p) \<in> set error_patterns \<and> re_search p two_log}
     = {ustr ''mixin_error'', ustr ''forge_error''}"
proof -
  let ?t = "MinecraftTester (sample_env Missing) sample_dir"
  have s: "split_nl two_log = [] @ two_log # []" by (simp add: split_two)
  have n: "ustr ''mixin_error'' \<noteq> ustr ''forge_error''" by simp
  have "set (hits two_log error_patterns)
          = {k. \<exists>p. (k, p) \<in> set error_patterns \<and> re_search p two_log}"
    by (auto simp: hits_member)
  then have m: "{k. \<exists>p. (k, p) \<in> set error_patterns \<and> re_search p two_log}
             = {ustr ''mixin_error'', ustr ''forge_error''}"
    by (simp add: hits_two)
  from two_signatures [OF s n m, of ?t "sample_env Missing"]
  obtain i j where
    "map untimed (drop (length (issues ?t))
        (issues (analyze_log_content (sample_env Missing) two_log ?t))) = [i, j]"
    by (auto simp: found_in_def)
  moreover have "map untimed (drop (length (issues ?t))
        (issues (analyze_log_content (sample_env Missing) two_log ?t)))
     = [bare two_log (ustr ''mixin_error''), bare two_log (ustr ''forge_error'')]"
    using analyze_decompose [OF s, of ?t "sample_env Missing"]
    by (simp add: hits_two found_in_def)
  ultimately show ?thesis using m by (simp add: bare_two severity_of_def)
qed

text \<open>
  C9. For each line of the text and each signature kind the classification appends at
  most one issue, however often the pattern occurs in the line, so a line contributes at
  most ten issues, one for each signature of the table.
\<close>

theorem one_issue_per_line_and_kind:
  assumes "split_nl content = before @ line # after"
  shows "\<exists>seg. map untimed (drop (length (issues t))
                   (issues (analyze_log_content e content t)))
                 = found_in before @ seg @ found_in after \<and>
               (\<forall>k. length (filter (\<lambda>i. type i = k) seg) \<le> 1) \<and>
               length seg \<le> 10 \<and>
               (\<forall>i \<in> set seg. message i = strip line)"
proof -
  let ?seg = "map (bare line) (hits line error_patterns)"
  have "length (filter (\<lambda>i. type i = k) ?seg) \<le> 1" for k
    using distinct_filter_eq [OF distinct_hits, of k line] by (simp add: filter_type_bare)
  moreover have "length ?seg \<le> 10" using length_hits [of line] by simp
  moreover have "\<forall>i \<in> set ?seg. message i = strip line" by (simp add: bare_def)
  ultimately show ?thesis using analyze_decompose [OF assms, of t e] by blast
qed

theorem one_issue_per_line_and_kind_witness:
  "split_nl repeat_log = [] @ repeat_log # [] \<and>
   map untimed (drop (length (issues (MinecraftTester (sample_env Missing) sample_dir)))
      (issues (analyze_log_content (sample_env Missing) repeat_log
         (MinecraftTester (sample_env Missing) sample_dir))))
     = [\<lparr>type = ustr ''forge_error'', message = ustr ''FML FML'',
          mod_name = Some (ustr ''unknown''), severity = ustr ''warning'',
          timestamp = None\<rparr>]"
proof -
  let ?t = "MinecraftTester (sample_env Missing) sample_dir"
  have s: "split_nl repeat_log = [] @ repeat_log # []" by (simp add: split_repeat)
  from one_issue_per_line_and_kind [OF s, of ?t "sample_env Missing"]
  obtain seg where seg: "map untimed (drop (length (issues ?t))
        (issues (analyze_log_content (sample_env Missing) repeat_log ?t))) = seg"
    and one: "length (filter (\<lambda>i. type i = ustr ''forge_error'') seg) \<le> 1"
    by (auto simp: found_in_def)
  have "map untimed (drop (length (issues ?t))
        (issues (analyze_log_content (sample_env Missing) repeat_log ?t)))
     = [bare repeat_log (ustr ''forge_error'')]"
    using analyze_decompose [OF s, of ?t "sample_env Missing"]
    by (simp add: hits_repeat found_in_def)
  with s show ?thesis by (simp add: bare_repeat severity_of_def)
qed

text \<open>
  C7. With the warnings \<open>ws\<close> and the critical issues \<open>cs\<close> of the collected issues:
  if there are more than five warnings, the summary printed by \<open>generate_report\<close>
  ends with the warnings header, the entries of exactly the first five warnings, one
  line \<open>... and N more warnings\<close> with \<open>N\<close> the number of warnings less five, and the
  line naming the report file; if there are between one and five warnings, all their
  entries are printed and no such line; if there is none, there is no warnings block.
\<close>

theorem warnings_truncated:
  assumes "generate_report e t = Inr (r, t')"
    and "ws = filter (\<lambda>i. severity i = ustr ''warning'') (issues t)"
    and "cs = filter (\<lambda>i. severity i = ustr ''critical'') (issues t)"
  shows "(5 < length ws \<longrightarrow>
            length (take 5 ws) = 5 \<and>
            stdout t' = stdout t @ summary_head t r @
              [[10] @ ustr ''ISSUES DETECTED:'', replicate 40 45] @ critical_block cs @
              [[10] @ ustr ''WARNINGS (may cause issues):''] @
              map issue_line (take 5 ws) @
              [ustr ''  ... and '' @ decimal (length ws - 5) @ ustr '' more warnings''] @
              [[10] @ ustr ''Full report saved to: '' @ report_file e t]) \<and>
         (ws \<noteq> [] \<and> length ws \<le> 5 \<longrightarrow>
            stdout t' = stdout t @ summary_head t r @
              [[10] @ ustr ''ISSUES DETECTED:'', replicate 40 45] @ critical_block cs @
              [[10] @ ustr ''WARNINGS (may cause issues):''] @
              map issue_line ws @
              [[10] @ ustr ''Full report saved to: '' @ report_file e t]) \<and>
         (ws = [] \<longrightarrow>
            stdout t' = stdout t @ summary_head t r @
              (if issues t \<noteq> []
               then [[10] @ ustr ''ISSUES DETECTED:'', replicate 40 45] @ critical_block cs
               else []) @
              [[10] @ ustr ''Full report saved to: '' @ report_file e t])"
proof -
  from assms(1) have out: "stdout t' = stdout t @ summary_head t r @ issues_detected t @
      [[10] @ ustr ''Full report saved to: '' @ report_file e t]"
    by (auto simp: generate_report_def Let_def split: if_splits)
  have ne: "issues t \<noteq> []" if "ws \<noteq> []"
    using that assms(2) by auto
  have 1: "5 < length ws \<longrightarrow>
            length (take 5 ws) = 5 \<and>
            stdout t' = stdout t @ summary_head t r @
              [[10] @ ustr ''ISSUES DETECTED:'', replicate 40 45] @ critical_block cs @
              [[10] @ ustr ''WARNINGS (may cause issues):''] @
              map issue_line (take 5 ws) @
              [ustr ''  ... and '' @ decimal (length ws - 5) @ ustr '' more warnings''] @
              [[10] @ ustr ''Full report saved to: '' @ report_file e t]"
  proof
    assume l: "5 < length ws"
    then have "ws \<noteq> []" by auto
    with l ne show "length (take 5 ws) = 5 \<and>
            stdout t' = stdout t @ summary_head t r @
              [[10] @ ustr ''ISSUES DETECTED:'', replicate 40 45] @ critical_block cs @
              [[10] @ ustr ''WARNINGS (may cause issues):''] @
              map issue_line (take 5 ws) @
              [ustr ''  ... and '' @ decimal (length ws - 5) @ ustr '' more warnings''] @
              [[10] @ ustr ''Full report saved to: '' @ report_file e t]"
      by (simp add: out issues_detected_def warnings_block_def more_line_def
          assms(2) [symmetric] assms(3) [symmetric])
  qed
  have 2: "ws \<noteq> [] \<and> length ws \<le> 5 \<longrightarrow>
            stdout t' = stdout t @ summary_head t r @
              [[10] @ ustr ''ISSUES DETECTED:'', replicate 40 45] @ critical_block cs @
              [[10] @ ustr ''WARNINGS (may cause issues):''] @
              map issue_line ws @
              [[10] @ ustr ''Full report saved to: '' @ report_file e t]"
    using ne
    by (simp add: out issues_detected_def warnings_block_def
        assms(2) [symmetric] assms(3) [symmetric])
  have 3: "ws = [] \<longrightarrow>
            stdout t' = stdout t @ summary_head t r @
              (if issues t \<noteq> []
               then [[10] @ ustr ''ISSUES DETECTED:'', replicate 40 45] @ critical_block cs
               else []) @
              [[10] @ ustr ''Full report saved to: '' @ report_file e t]"
    by (simp add: out issues_detected_def warnings_block_def
        assms(2) [symmetric] assms(3) [symmetric])
  from 1 2 3 show ?thesis by (intro conjI)
qed

theorem warnings_truncated_witness:
  "\<exists>r t'. generate_report (sample_env (Readable six_log))
             (monitor_thread (sample_env (Readable six_log))
                (MinecraftTester (sample_env (Readable six_log)) sample_dir)) = Inr (r, t') \<and>
     warning_issues r = 6 \<and>
     last (butlast (stdout t')) = ustr ''  ... and 1 more warnings'' \<and>
     length (stdout t') = 19"
proof -
  let ?e = "sample_env (Readable six_log)"
  let ?t = "monitor_thread ?e (MinecraftTester ?e sample_dir)"
  let ?ws = "filter (\<lambda>i. severity i = ustr ''warning'') (issues ?t)"
  let ?cs = "filter (\<lambda>i. severity i = ustr ''critical'') (issues ?t)"
  obtain r t' where g: "generate_report ?e ?t = Inr (r, t')"
    using generate_report_total [OF sample_env_fields(2)] by blast
  have n: "length ?ws = 6"
    by (simp add: monitor_thread_issues split_six hits_fml severity_stamped forge_is_warning)
  have c: "?cs = []"
    by (simp add: monitor_thread_issues split_six hits_fml severity_stamped forge_is_warning)
  have s: "length (stdout ?t) = 1"
    by (simp add: monitor_thread_def monitor_logs_def Let_def check_success_eq analyze_log_content_def
        scan_lines_eq success_patterns_def re_search_def lit_def ustr_def fold_ci_def
        six_log_def MinecraftTester_def)
  from warnings_truncated [OF g refl refl] n
  have out: "stdout t' = stdout ?t @ summary_head ?t r @
              [[10] @ ustr ''ISSUES DETECTED:'', replicate 40 45] @ critical_block ?cs @
              [[10] @ ustr ''WARNINGS (may cause issues):''] @
              map issue_line (take 5 ?ws) @
              [ustr ''  ... and '' @ decimal (length ?ws - 5) @ ustr '' more warnings''] @
              [[10] @ ustr ''Full report saved to: '' @ report_file ?e ?t]"
    by simp
  have m: "ustr ''  ... and '' @ decimal (length ?ws - 5) @ ustr '' more warnings''
             = ustr ''  ... and 1 more warnings''"
    unfolding n using more_line_1 by (simp add: more_line_def)
  have "last (butlast (stdout t')) = ustr ''  ... and 1 more warnings''"
    unfolding out m by (simp add: butlast_append)
  moreover have "length (stdout t') = 19"
    unfolding out by (simp add: s n c summary_head_def critical_block_def)
  moreover have "warning_issues r = 6"
    using generate_report_Inr(4) [OF g] n by simp
  ultimately show ?thesis using g by blast
qed

end
